theory Spec2Isabelle
  imports Complex_Main "HOL-Library.Stream" "HOL-Library.Word"
begin

section \<open>Values and enumerations shared by the three modules\<close>

text \<open>
  The package \<^verbatim>\<open>ezmsg.harvesters\<close> has three modules: \<^verbatim>\<open>_spec.py\<close> (the spec
  dataclasses and \<^verbatim>\<open>build_feature_spec\<close>), \<^verbatim>\<open>__init__.py\<close> (the unit
  \<^verbatim>\<open>HarvesterCam\<close>) and \<^verbatim>\<open>_gui.py\<close> (the widget builder and
  \<^verbatim>\<open>GenicamController\<close>). Each is embedded below in that order.

  Python values that travel through the code untyped (\<^verbatim>\<open>feature.value\<close>,
  \<^verbatim>\<open>FeatureValue.value\<close>, \<^verbatim>\<open>widget.value\<close>) are values of \<open>pyval\<close>. A float is
  carried as a real number: no arithmetic is done on it by the code embedded here.
\<close>

datatype pyval = PyNone | PyInt int | PyFloat real | PyBool bool | PyStr string

text \<open>
  The three enumerations imported from \<^verbatim>\<open>genicam.genapi\<close>, with the integer value of
  each member. The leading underscore of the last members is dropped.
\<close>

datatype EInterfaceType =
    intfIValue | intfIBase | intfIInteger | intfIBoolean | intfICommand | intfIFloat
  | intfIString | intfIRegister | intfICategory | intfIEnumeration | intfIEnumEntry | intfIPort

datatype EAccessMode = NI | NA | WO | RO | RW | UndefinedAccesMode | CycleDetectAccesMode

datatype EVisibility = Beginner | Expert | Guru | Invisible | UndefinedVisibility

fun access_mode_int :: "EAccessMode \<Rightarrow> int" where
  "access_mode_int NI = 0"
| "access_mode_int NA = 1"
| "access_mode_int WO = 2"
| "access_mode_int RO = 3"
| "access_mode_int RW = 4"
| "access_mode_int UndefinedAccesMode = 5"
| "access_mode_int CycleDetectAccesMode = 6"

fun visibility_int :: "EVisibility \<Rightarrow> int" where
  "visibility_int Beginner = 0"
| "visibility_int Expert = 1"
| "visibility_int Guru = 2"
| "visibility_int Invisible = 3"
| "visibility_int UndefinedVisibility = 99"

text \<open>
  A dataclass field annotated \<^verbatim>\<open>EVisibility\<close> holds whatever object the constructor was
  given. \<open>enum_member\<close> is such an object: a member of one of the two enumerations that
  the builder stores in spec fields, with \<open>int_value\<close> its integer value.
\<close>

datatype enum_member = Visibility EVisibility | AccessMode EAccessMode

fun int_value :: "enum_member \<Rightarrow> int" where
  "int_value (Visibility v) = visibility_int v"
| "int_value (AccessMode a) = access_mode_int a"

type_synonym UUID = "128 word"

text \<open>
  Exceptions raised by the embedded code. \<^verbatim>\<open>UnboundLocalError\<close> is what Python raises
  when a local variable is read before any assignment; it is a subclass of
  \<^verbatim>\<open>NameError\<close>, which \<open>is_NameError\<close> records. \<open>Exception\<close> is the bare
  \<^verbatim>\<open>Exception("...")\<close> of the acquisition loop.
\<close>

datatype error =
    ValueError string
  | UnboundLocalError string
  | AttributeError string
  | IndexError string
  | Exception string

fun is_NameError :: "error \<Rightarrow> bool" where
  "is_NameError (UnboundLocalError _) = True"
| "is_NameError _ = False"


section \<open>\<^verbatim>\<open>_spec.py\<close>: the spec dataclasses\<close>

text \<open>
  One constructor per dataclass, fields in declaration order. The field \<^verbatim>\<open>value\<close> is
  called \<open>val\<close> and \<^verbatim>\<open>min\<close>, \<^verbatim>\<open>max\<close> are \<open>min_opt\<close>, \<open>max_opt\<close>, since the
  source's names are taken in Isabelle. \<open>uuid\<close> is the only field the code assigns after
  construction (\<open>set_uuid\<close>).
\<close>

datatype FeatureSpec =
    IntegerFeatureSpec
      (display_name: string) (visibility: enum_member) (access_mode: EAccessMode)
      (val: pyval) (min_opt: "int option") (max_opt: "int option") (inc: "int option")
      (interface_type: EInterfaceType) (uuid: UUID)
  | CommandFeatureSpec
      (display_name: string) (visibility: enum_member)
      (interface_type: EInterfaceType) (uuid: UUID)
  | BooleanFeatureSpec
      (display_name: string) (visibility: enum_member) (access_mode: EAccessMode)
      (val: pyval)
      (interface_type: EInterfaceType) (uuid: UUID)
  | EnumFeatureSpec
      (display_name: string) (visibility: enum_member) (access_mode: EAccessMode)
      (val: pyval) (items: "string list")
      (interface_type: EInterfaceType) (uuid: UUID)
  | StringFeatureSpec
      (display_name: string) (visibility: enum_member) (access_mode: EAccessMode)
      (val: pyval)
      (interface_type: EInterfaceType) (uuid: UUID)
  | FloatFeatureSpec
      (display_name: string) (visibility: enum_member) (access_mode: EAccessMode)
      (val: pyval)
      (interface_type: EInterfaceType) (uuid: UUID)
  | CategoryFeatureSpec
      (display_name: string) (visibility: enum_member)
      (children: "FeatureSpec list")
      (interface_type: EInterfaceType) (uuid: UUID)

fun set_uuid :: "FeatureSpec \<Rightarrow> UUID \<Rightarrow> FeatureSpec" where
  "set_uuid (IntegerFeatureSpec d v a x mn mx ic t _) u = IntegerFeatureSpec d v a x mn mx ic t u"
| "set_uuid (CommandFeatureSpec d v t _) u = CommandFeatureSpec d v t u"
| "set_uuid (BooleanFeatureSpec d v a x t _) u = BooleanFeatureSpec d v a x t u"
| "set_uuid (EnumFeatureSpec d v a x its t _) u = EnumFeatureSpec d v a x its t u"
| "set_uuid (StringFeatureSpec d v a x t _) u = StringFeatureSpec d v a x t u"
| "set_uuid (FloatFeatureSpec d v a x t _) u = FloatFeatureSpec d v a x t u"
| "set_uuid (CategoryFeatureSpec d v cs t _) u = CategoryFeatureSpec d v cs t u"

datatype Source = CAMERA | CONTROLLER

record FeatureValue =
  source :: Source
  fv_uuid :: UUID
  fv_value :: pyval


section \<open>The live feature tree read by the builder\<close>

text \<open>
  The vendor SDK is outside the repository. A \<open>feature\<close> is one node of the tree under
  \<^verbatim>\<open>node_map.Root.features\<close>, carrying what the attribute reads of the builder return
  while the tree is walked: \<^verbatim>\<open>feature.node.display_name\<close>,
  \<^verbatim>\<open>feature.node.visibility\<close>, \<^verbatim>\<open>feature.node.principal_interface_type\<close>,
  \<^verbatim>\<open>feature.node.get_access_mode()\<close>, \<^verbatim>\<open>feature.value\<close>, \<^verbatim>\<open>feature.min\<close>,
  \<^verbatim>\<open>feature.max\<close>, \<^verbatim>\<open>feature.inc\<close>, \<^verbatim>\<open>feature.entries\<close> and
  \<^verbatim>\<open>feature.features\<close>. The same object is what the builder stores in the mapping.
\<close>

record Node =
  node_display_name :: string
  node_visibility :: EVisibility
  principal_interface_type :: EInterfaceType
  get_access_mode :: EAccessMode

record EnumEntry =
  symbolic :: string

datatype feature =
  Feature (node: Node) (feature_value: pyval)
    (feature_min: int) (feature_max: int) (feature_inc: int)
    (entries: "EnumEntry list") (features: "feature list")


section \<open>\<^verbatim>\<open>_spec.py\<close>: \<^verbatim>\<open>build_feature_spec\<close>\<close>

text \<open>
  \<^verbatim>\<open>uuid4()\<close> is a draw from a source of randomness, here a stream of identifiers of
  which every call takes the head. The loop
  \<^verbatim>\<open>while spec.uuid in mapping: spec.uuid = uuid4()\<close> need not end (nothing in the code
  bounds the number of draws), so it is a partial function: \<open>None\<close> is the run that
  never leaves the loop, \<open>Some (u, rng')\<close> gives the identifier the spec ends up with and
  the rest of the stream.
\<close>

partial_function (option) while_uuid_in_mapping ::
  "(UUID \<rightharpoonup> feature) \<Rightarrow> UUID \<Rightarrow> UUID stream \<Rightarrow> (UUID \<times> UUID stream) option"
where
  "while_uuid_in_mapping mapping u rng =
     (if u \<in> dom mapping then while_uuid_in_mapping mapping (shd rng) (stl rng)
      else Some (u, rng))"

text \<open>
  One activation of \<^verbatim>\<open>build_feature_spec\<close> has three locals that matter: the spec
  objects it has constructed (\<open>objs\<close>, a table indexed by reference), the variable
  \<^verbatim>\<open>spec\<close> (\<open>spec_var\<close>: unbound, or a reference into the table) and the list
  \<^verbatim>\<open>feature_specs\<close> of references. A table is needed because the code can append the
  same object twice and assigns to \<^verbatim>\<open>spec.uuid\<close> through the variable. The children of
  a category are constructed by the recursive activation, which has returned before the
  category object exists; nothing holds a reference to them but the returned list, so they
  are stored in the category by value.
\<close>

record frame =
  objs :: "FeatureSpec list"
  spec_var :: "nat option"
  feature_specs :: "nat list"

definition empty_frame :: frame where
  "empty_frame = \<lparr>objs = [], spec_var = None, feature_specs = []\<rparr>"

definition assign_spec :: "frame \<Rightarrow> FeatureSpec \<Rightarrow> frame" where
  \<comment> \<open>\<^verbatim>\<open>spec = <a newly constructed object>\<close>\<close>
  "assign_spec fr s = fr\<lparr>objs := objs fr @ [s], spec_var := Some (length (objs fr))\<rparr>"

text \<open>
  Lines 129--189: the branches for the kinds other than Category. Each constructor call
  draws the default \<^verbatim>\<open>uuid\<close> from the stream. The Not-Available branch of an Integer is
  \<^verbatim>\<open>pass\<close>: it leaves the frame as it is.
\<close>

definition leaf_branch ::
  "feature \<Rightarrow> frame \<Rightarrow> UUID stream \<Rightarrow> error + (frame \<times> UUID stream)"
where
  "leaf_branch feature fr rng =
    (let display_name = node_display_name (node feature);
         visibility = Visibility (node_visibility (node feature));
         interface_type = principal_interface_type (node feature)
     in
     if interface_type = intfIInteger then
       (let access_mode = get_access_mode (node feature) in
        if access_mode = RW then
          Inr (assign_spec fr
                 (IntegerFeatureSpec display_name visibility access_mode
                    (feature_value feature)
                    (Some (feature_min feature)) (Some (feature_max feature))
                    (Some (feature_inc feature)) intfIInteger (shd rng)),
               stl rng)
        else if access_mode = RO then
          Inr (assign_spec fr
                 (IntegerFeatureSpec display_name visibility access_mode
                    (feature_value feature) None None None intfIInteger (shd rng)),
               stl rng)
        else if access_mode = NA then Inr (fr, rng)
        else Inl (ValueError ''Unexpected EAccessMode(access_mode)''))
     else if interface_type = intfICommand then
       Inr (assign_spec fr (CommandFeatureSpec display_name visibility intfICommand (shd rng)),
            stl rng)
     else if interface_type = intfIBoolean then
       Inr (assign_spec fr
              (BooleanFeatureSpec display_name visibility (get_access_mode (node feature))
                 (feature_value feature) intfIBoolean (shd rng)),
            stl rng)
     else if interface_type = intfIEnumeration then
       Inr (assign_spec fr
              (EnumFeatureSpec display_name visibility (get_access_mode (node feature))
                 (feature_value feature) (map symbolic (entries feature))
                 intfIEnumeration (shd rng)),
            stl rng)
     else if interface_type = intfIString then
       Inr (assign_spec fr
              (StringFeatureSpec display_name visibility (get_access_mode (node feature))
                 (feature_value feature) intfIString (shd rng)),
            stl rng)
     else if interface_type = intfIFloat then
       Inr (assign_spec fr
              (FloatFeatureSpec display_name visibility (get_access_mode (node feature))
                 (feature_value feature) intfIFloat (shd rng)),
            stl rng)
     else Inl (ValueError ''Unexpected interface type''))"

text \<open>
  Lines 191--196, the end of every iteration that did not raise: the precautionary loop on
  \<^verbatim>\<open>spec.uuid\<close>, \<^verbatim>\<open>feature_specs.append(spec)\<close> and
  \<^verbatim>\<open>mapping[spec.uuid] = feature\<close>. Reading \<^verbatim>\<open>spec\<close> while it is unbound raises
  \<^verbatim>\<open>UnboundLocalError\<close>. The result is the outcome (an exception or the new frame), the
  dictionary as the activation leaves it, and the rest of the stream.
\<close>

definition append_and_map ::
  "feature \<Rightarrow> frame \<Rightarrow> (UUID \<rightharpoonup> feature) \<Rightarrow> UUID stream
     \<Rightarrow> ((error + frame) \<times> (UUID \<rightharpoonup> feature) \<times> UUID stream) option"
where
  "append_and_map feature fr mapping rng =
    (case spec_var fr of
       None \<Rightarrow> Some (Inl (UnboundLocalError ''spec''), mapping, rng)
     | Some a \<Rightarrow>
        (case while_uuid_in_mapping mapping (uuid (objs fr ! a)) rng of
           None \<Rightarrow> None
         | Some (u, rng') \<Rightarrow>
             Some (Inr (fr\<lparr>objs := (objs fr)[a := set_uuid (objs fr ! a) u],
                           feature_specs := feature_specs fr @ [a]\<rparr>),
                   mapping(u \<mapsto> feature), rng')))"

text \<open>
  The \<^verbatim>\<open>for\<close> loop over \<^verbatim>\<open>features\<close>, from a given frame. The dictionary is one
  object handed down the recursion and mutated in place, so it is threaded through every
  call and returned also when an exception ends the run. The value returned for the list
  is what a reader of \<^verbatim>\<open>feature_specs\<close> sees: each reference followed into the table.
\<close>

fun build_loop ::
  "feature list \<Rightarrow> frame \<Rightarrow> (UUID \<rightharpoonup> feature) \<Rightarrow> UUID stream
     \<Rightarrow> ((error + FeatureSpec list) \<times> (UUID \<rightharpoonup> feature) \<times> UUID stream) option"
where
  "build_loop [] fr mapping rng =
     Some (Inr (map (\<lambda>a. objs fr ! a) (feature_specs fr)), mapping, rng)"
| "build_loop (Feature nd v mn mx ic es fs # rest) fr mapping rng =
    (let feature = Feature nd v mn mx ic es fs in
     if principal_interface_type nd = intfICategory then
       (case build_loop fs empty_frame mapping rng of
          None \<Rightarrow> None
        | Some (Inl e, mapping1, rng1) \<Rightarrow> Some (Inl e, mapping1, rng1)
        | Some (Inr children1, mapping1, rng1) \<Rightarrow>
           (case append_and_map feature
                   (assign_spec fr
                      (CategoryFeatureSpec (node_display_name nd)
                         (AccessMode (get_access_mode nd)) children1
                         intfICategory (shd rng1)))
                   mapping1 (stl rng1) of
              None \<Rightarrow> None
            | Some (Inl e, mapping2, rng2) \<Rightarrow> Some (Inl e, mapping2, rng2)
            | Some (Inr fr2, mapping2, rng2) \<Rightarrow> build_loop rest fr2 mapping2 rng2))
     else
       (case leaf_branch feature fr rng of
          Inl e \<Rightarrow> Some (Inl e, mapping, rng)
        | Inr (fr1, rng1) \<Rightarrow>
           (case append_and_map feature fr1 mapping rng1 of
              None \<Rightarrow> None
            | Some (Inl e, mapping2, rng2) \<Rightarrow> Some (Inl e, mapping2, rng2)
            | Some (Inr fr2, mapping2, rng2) \<Rightarrow> build_loop rest fr2 mapping2 rng2)))"

definition build_feature_spec ::
  "feature list \<Rightarrow> (UUID \<rightharpoonup> feature) \<Rightarrow> UUID stream
     \<Rightarrow> ((error + (FeatureSpec list \<times> (UUID \<rightharpoonup> feature))) \<times> (UUID \<rightharpoonup> feature) \<times> UUID stream) option"
where
  "build_feature_spec feats mapping rng =
    (case build_loop feats empty_frame mapping rng of
       None \<Rightarrow> None
     | Some (Inl e, mapping', rng') \<Rightarrow> Some (Inl e, mapping', rng')
     | Some (Inr specs, mapping', rng') \<Rightarrow>
         Some (Inr (specs, mapping'), mapping', rng'))"


section \<open>\<^verbatim>\<open>__init__.py\<close>: the unit \<^verbatim>\<open>HarvesterCam\<close>\<close>

datatype Mode = STOPPED | PAUSED | STARTED

text \<open>
  What the unit asks of the vendor SDK, for a camera whose state is a value of \<open>'dev\<close>:
  the tree under \<^verbatim>\<open>ia.remote_device.node_map.Root.features\<close>, \<^verbatim>\<open>feature.execute()\<close>,
  the assignment \<^verbatim>\<open>feature.value = v\<close> (which returns the exception it raised, if any,
  and the camera as the attempt leaves it), the read \<^verbatim>\<open>feature.value\<close> (which returns
  the value, or the exception it raised: a node that is not readable, or a device that no
  longer answers, refuses the read), \<^verbatim>\<open>ia.start()\<close> and \<^verbatim>\<open>ia.stop()\<close>. The SDK is not
  part of the repository, so these are parameters of the model.
\<close>

record 'dev sdk =
  root_features :: "'dev \<Rightarrow> feature list"
  execute :: "feature \<Rightarrow> 'dev \<Rightarrow> 'dev"
  set_value :: "feature \<Rightarrow> pyval \<Rightarrow> 'dev \<Rightarrow> error option \<times> 'dev"
  get_value :: "feature \<Rightarrow> 'dev \<Rightarrow> error + pyval"
  ia_start :: "'dev \<Rightarrow> 'dev"
  ia_stop :: "'dev \<Rightarrow> 'dev"

text \<open>
  \<^verbatim>\<open>isinstance(feature, IInteger)\<close> and its siblings: the SDK hands out each node as an
  object of the class of its principal interface.
\<close>

definition isinstance :: "feature \<Rightarrow> EInterfaceType \<Rightarrow> bool" where
  "isinstance feature t = (principal_interface_type (node feature) = t)"

text \<open>
  Two dictionary objects can be bound to \<^verbatim>\<open>STATE.mapping\<close>: the one made by
  \<^verbatim>\<open>field(default_factory=dict)\<close> when the state is created, and the one Python made for
  the default value of the parameter \<^verbatim>\<open>mapping\<close> when
  \<^verbatim>\<open>def build_feature_spec(features, mapping: dict = {})\<close> was executed. The second is
  one object for the life of the module: every call that passes no \<^verbatim>\<open>mapping\<close> gets
  it, mutates it and returns it. \<open>STATE_mapping\<close> is a reference to one of the two.

  \<open>world\<close> gathers the fields of \<^verbatim>\<open>HarvesterCamState\<close> (\<open>mode_change_ev\<close>: whether
  the event is set; \<open>ia\<close>: whether an acquirer is bound), the camera behind the SDK, and
  the two pieces of module state the unit reaches through \<^verbatim>\<open>build_feature_spec\<close>: the
  default dictionary and the source of \<^verbatim>\<open>uuid4()\<close>.
\<close>

datatype dict_ref = InitialDict | DefaultDict

datatype ImageAcquirer = ImageAcquirer

record 'dev world =
  mode_change_ev :: bool
  ia :: "ImageAcquirer option"
  mode :: Mode
  STATE_mapping :: dict_ref
  initial_dict :: "UUID \<rightharpoonup> feature"
  default_dict :: "UUID \<rightharpoonup> feature"
  uuid4 :: "UUID stream"
  device :: "'dev"

definition deref :: "'dev world \<Rightarrow> dict_ref \<Rightarrow> (UUID \<rightharpoonup> feature)" where
  "deref w r = (case r of InitialDict \<Rightarrow> initial_dict w | DefaultDict \<Rightarrow> default_dict w)"

datatype ctrl_message = FeatureSpecs "FeatureSpec list" | FeatureValueMsg FeatureValue

text \<open>
  \<^verbatim>\<open>build_feature_spec(self.STATE.ia.remote_device.node_map.Root.features)\<close> followed by
  \<^verbatim>\<open>self.STATE.mapping = mapping\<close>: the three call sites of the unit. No \<^verbatim>\<open>mapping\<close>
  is passed, so the activation works on the default dictionary, which keeps what the run
  wrote into it also when the run raises.
\<close>

definition rebuild ::
  "'dev sdk \<Rightarrow> 'dev world \<Rightarrow> ((error + FeatureSpec list) \<times> 'dev world) option"
where
  "rebuild sdk w =
    (case ia w of
       None \<Rightarrow> Some (Inl (AttributeError ''NoneType has no attribute remote_device''), w)
     | Some _ \<Rightarrow>
        (case build_feature_spec (root_features sdk (device w)) (default_dict w) (uuid4 w) of
           None \<Rightarrow> None
         | Some (Inl e, mapping', rng') \<Rightarrow>
             Some (Inl e, w\<lparr>default_dict := mapping', uuid4 := rng'\<rparr>)
         | Some (Inr (specs, _), mapping', rng') \<Rightarrow>
             Some (Inr specs,
                   w\<lparr>default_dict := mapping', uuid4 := rng', STATE_mapping := DefaultDict\<rparr>)))"

text \<open>
  A handler returns the exception that ended it (if any), the messages it yielded on
  \<^verbatim>\<open>OUTPUT_CTRL\<close> in order, and the world it leaves; \<open>None\<close> is the run that never
  returns. In \<^verbatim>\<open>on_ctrl\<close> only the assignment of line 147 is inside the \<^verbatim>\<open>try\<close>: the
  read \<^verbatim>\<open>feature.value\<close> of line 152 is evaluated in the \<^verbatim>\<open>except\<close> clause, so an
  exception it raises ends the handler before anything is yielded.
\<close>

type_synonym 'dev handler_result = "(error option \<times> ctrl_message list \<times> 'dev world) option"

definition send_ctrl :: "'dev sdk \<Rightarrow> 'dev world \<Rightarrow> 'dev handler_result" where
  "send_ctrl sdk w =
    (if ia w \<noteq> None then
       (case rebuild sdk w of
          None \<Rightarrow> None
        | Some (Inl e, w') \<Rightarrow> Some (Some e, [], w')
        | Some (Inr specs, w') \<Rightarrow> Some (None, [FeatureSpecs specs], w'))
     else Some (None, [], w))"

definition acquisition_command ::
  "'dev sdk \<Rightarrow> Mode \<Rightarrow> ('dev \<Rightarrow> 'dev) \<Rightarrow> 'dev world \<Rightarrow> 'dev handler_result"
where
  \<comment> \<open>the body shared by the branches for AcquisitionStart and AcquisitionStop\<close>
  "acquisition_command sdk new_mode start_or_stop w =
    (let w1 = (if ia w \<noteq> None then w\<lparr>device := start_or_stop (device w)\<rparr> else w);
         w2 = w1\<lparr>mode := new_mode\<rparr>
     in case rebuild sdk w2 of
          None \<Rightarrow> None
        | Some (Inl e, w3) \<Rightarrow> Some (Some e, [], w3)
        | Some (Inr specs, w3) \<Rightarrow>
            Some (None, [FeatureSpecs specs], w3\<lparr>mode_change_ev := True\<rparr>))"

definition on_ctrl :: "'dev sdk \<Rightarrow> FeatureValue \<Rightarrow> 'dev world \<Rightarrow> 'dev handler_result" where
  "on_ctrl sdk message w =
    (if source message \<noteq> CONTROLLER then Some (None, [], w)
     else
       (case deref w (STATE_mapping w) (fv_uuid message) of
          None \<Rightarrow> Some (None, [], w)
        | Some feature \<Rightarrow>
           if isinstance feature intfICategory then Some (None, [], w)
           else if isinstance feature intfICommand then
             (let w1 = w\<lparr>device := execute sdk feature (device w)\<rparr>;
                  display_name = node_display_name (node feature)
              in if filter (\<lambda>c. c \<noteq> CHR '' '') display_name = ''AcquisitionStart''
                    \<and> mode w1 \<noteq> STARTED
                 then acquisition_command sdk STARTED (ia_start sdk) w1
                 else if filter (\<lambda>c. c \<noteq> CHR '' '') display_name = ''AcquisitionStop''
                    \<and> mode w1 \<noteq> STOPPED
                 then acquisition_command sdk STOPPED (ia_stop sdk) w1
                 else Some (None, [], w1))
           else if isinstance feature intfIInteger \<or> isinstance feature intfIFloat
                 \<or> isinstance feature intfIBoolean \<or> isinstance feature intfIEnumeration
                 \<or> isinstance feature intfIString
           then
             (case set_value sdk feature (fv_value message) (device w) of
                (None, dev') \<Rightarrow> Some (None, [], w\<lparr>device := dev'\<rparr>)
              | (Some e, dev') \<Rightarrow>
                  (case get_value sdk feature dev' of
                     Inl e' \<Rightarrow> Some (Some e', [], w\<lparr>device := dev'\<rparr>)
                   | Inr v \<Rightarrow>
                       Some (None,
                             [FeatureValueMsg
                                \<lparr>source = CAMERA, fv_uuid = fv_uuid message, fv_value = v\<rparr>],
                             w\<lparr>device := dev'\<rparr>)))
           else Some (Some (ValueError ''Unexpected interface type''), [], w)))"


section \<open>\<^verbatim>\<open>__init__.py\<close>: decoding a fetched buffer in \<^verbatim>\<open>on_image\<close>\<close>

text \<open>
  The pixel-format tables of \<^verbatim>\<open>harvesters.util.pfnc\<close> are looked up, not defined, by
  the repository; they are parameters. \<open>is_custom\<close> is asked about the numeric format
  code, the others about the format's name (or \<^verbatim>\<open>None\<close> for a custom format).
\<close>

record pfnc =
  is_custom :: "int \<Rightarrow> bool"
  get_bits_per_pixel :: "string option \<Rightarrow> int option"
  mono_location_formats :: "string list"
  bayer_location_formats :: "string list"
  rgb_formats :: "string list"
  rgba_formats :: "string list"
  bgr_formats :: "string list"
  bgra_formats :: "string list"

definition in_formats :: "string option \<Rightarrow> string list \<Rightarrow> bool" where
  \<comment> \<open>\<^verbatim>\<open>data_format in table\<close>; \<^verbatim>\<open>None\<close> is in no table\<close>
  "in_formats data_format table =
     (case data_format of None \<Rightarrow> False | Some f \<Rightarrow> f \<in> set table)"

text \<open>
  Arrays. \<^verbatim>\<open>component.data\<close> is a one-dimensional array of unsigned samples; the decoded
  content is two- or three-dimensional, written as nested lists (rows, then pixels, then
  channels), each with its element type.
\<close>

datatype dtype = uint8 | uint16 | uint32

datatype ndarray =
    Array2 (dtype_of: dtype) "nat list list"
  | Array3 (dtype_of: dtype) "nat list list list"

record component =
  width :: nat
  height :: nat
  data_format_value :: int
  data_format :: string
  data_dtype :: dtype
  data :: "nat list"
  num_components_per_pixel :: nat

definition reshape2 :: "nat list \<Rightarrow> nat \<Rightarrow> nat \<Rightarrow> error + nat list list" where
  \<comment> \<open>\<^verbatim>\<open>a.reshape(h, w)\<close>, row-major; raises when the sizes do not agree\<close>
  "reshape2 xs h w =
     (if length xs = h * w then Inr (map (\<lambda>r. take w (drop (r * w) xs)) [0..<h])
      else Inl (ValueError ''cannot reshape array''))"

definition reshape3 :: "nat list \<Rightarrow> nat \<Rightarrow> nat \<Rightarrow> nat \<Rightarrow> error + nat list list list" where
  \<comment> \<open>\<^verbatim>\<open>a.reshape(h, w, n)\<close>\<close>
  "reshape3 xs h w n =
     (if length xs = h * w * n
      then Inr (map (\<lambda>r. map (\<lambda>c. take n (drop ((r * w + c) * n) xs)) [0..<w]) [0..<h])
      else Inl (ValueError ''cannot reshape array''))"

definition reverse_channels :: "nat list list list \<Rightarrow> nat list list list" where
  \<comment> \<open>\<^verbatim>\<open>content[:, :, ::-1]\<close>\<close>
  "reverse_channels content = map (map rev) content"

text \<open>
  Lines 220--223 on one sample: \<^verbatim>\<open>content / (2**exponent)\<close> is a true division giving a
  float and \<^verbatim>\<open>astype(np.uint8)\<close> drops the fraction, which for an unsigned sample and
  a power of two is the integer quotient. What the cast gives for a quotient above 255 is
  left to the platform by NumPy; it is the parameter \<open>overflow\<close>.
\<close>

definition to_8bit :: "(nat \<Rightarrow> nat) \<Rightarrow> int \<Rightarrow> nat \<Rightarrow> nat" where
  "to_8bit overflow exponent v =
     (let q = v div 2 ^ nat exponent in if q < 256 then q else overflow q)"

definition exponent_of :: "pfnc \<Rightarrow> string option \<Rightarrow> int" where
  \<comment> \<open>lines 184--188\<close>
  "exponent_of pf fmt =
     (case get_bits_per_pixel pf fmt of Some bpp \<Rightarrow> bpp - 8 | None \<Rightarrow> 0)"

definition decode :: "pfnc \<Rightarrow> (nat \<Rightarrow> nat) \<Rightarrow> component \<Rightarrow> error + ndarray" where
  \<comment> \<open>lines 175--223: from the first component of the payload to \<^verbatim>\<open>content\<close>\<close>
  "decode pf overflow component =
    (let data_format =
           (if is_custom pf (data_format_value component) then None else Some (data_format component));
         exponent = exponent_of pf data_format
     in
     if in_formats data_format (mono_location_formats pf)
        \<or> in_formats data_format (bayer_location_formats pf)
     then
       (case reshape2 (data component) (height component) (width component) of
          Inl e \<Rightarrow> Inl e
        | Inr content \<Rightarrow> Inr (Array2 (data_dtype component) content))
     else if in_formats data_format (rgb_formats pf) \<or> in_formats data_format (rgba_formats pf)
             \<or> in_formats data_format (bgr_formats pf) \<or> in_formats data_format (bgra_formats pf)
     then
       (case reshape3 (data component) (height component) (width component) (num_components_per_pixel component) of
          Inl e \<Rightarrow> Inl e
        | Inr content0 \<Rightarrow>
           (let content = (if in_formats data_format (bgr_formats pf)
                           then reverse_channels content0 else content0)
            in if exponent > 0
               then Inr (Array3 uint8 (map (map (map (to_8bit overflow exponent))) content))
               else Inr (Array3 (data_dtype component) content)))
     else Inl (Exception ''Should not reach this.''))"

record AxisArray =
  axis_data :: ndarray
  dims :: "string list"

datatype fetched = TimeoutException | Buffer "component list option"

definition on_image_iteration ::
  "pfnc \<Rightarrow> (nat \<Rightarrow> nat) \<Rightarrow> Mode \<Rightarrow> ImageAcquirer option \<Rightarrow> fetched \<Rightarrow> error + AxisArray list"
where
  \<comment> \<open>one pass of \<^verbatim>\<open>while True\<close>, given what \<^verbatim>\<open>ia.fetch\<close> does; the result is what is
      yielded on \<^verbatim>\<open>OUTPUT_SIGNAL\<close>\<close>
  "on_image_iteration pf overflow md acquirer f =
    (case md of
       STARTED \<Rightarrow>
        (if acquirer = None then Inr []
         else case f of
            TimeoutException \<Rightarrow> Inr []
          | Buffer None \<Rightarrow> Inr []
          | Buffer (Some []) \<Rightarrow> Inl (IndexError ''list index out of range'')
          | Buffer (Some (component # _)) \<Rightarrow>
             (case decode pf overflow component of
                Inl e \<Rightarrow> Inl e
              | Inr content \<Rightarrow> Inr [\<lparr>axis_data = content, dims = [''rows'', ''cols'']\<rparr>]))
     | STOPPED \<Rightarrow> Inr []
     | PAUSED \<Rightarrow> Inr [])"


section \<open>\<^verbatim>\<open>_gui.py\<close>: widgets, signals and the builder\<close>

text \<open>
  The widget toolkit is outside the repository. A widget is an object with the attributes
  the builder sets (\<open>w_value\<close>, \<open>w_min\<close>, \<open>w_max\<close> stand for \<^verbatim>\<open>value\<close>,
  \<^verbatim>\<open>min\<close>, \<^verbatim>\<open>max\<close>), the widgets a container holds, and its signal \<^verbatim>\<open>changed\<close>: the
  callbacks connected to it, each with its priority, and whether the signal is blocked.
  Widgets are mutated after they are stored in the mapping and in their container, so
  they live in a store and are named by reference.
\<close>

datatype widget_class = Container | Label | SpinBox | PushButton | ComboBox | LineEdit

datatype callback =
    on_value_changed nat UUID
  | check_widget_visibility nat FeatureSpec
  | check_container_visibility nat nat
  | emit_changed_of nat

record widget =
  widget_class :: widget_class
  name :: string
  w_value :: pyval
  choices :: "pyval list"
  w_min :: "int option"
  w_max :: "int option"
  step :: "int option"
  labels :: bool
  layout :: string
  enabled :: bool
  contents :: "nat list"
  changed_callbacks :: "(callback \<times> int) list"
  changed_blocked :: bool
  native_parent_changed :: "callback list"

definition new_widget :: "widget_class \<Rightarrow> widget" where
  \<comment> \<open>a widget as the toolkit makes it when no keyword is given\<close>
  "new_widget c =
     \<lparr>widget_class = c, name = [], w_value = PyNone, choices = [],
      w_min = None, w_max = None, step = None, labels = True, layout = ''vertical'',
      enabled = True, contents = [], changed_callbacks = [], changed_blocked = False,
      native_parent_changed = []\<rparr>"

record widget_heap =
  store :: "nat \<Rightarrow> widget"
  next_ref :: nat

definition alloc :: "widget \<Rightarrow> widget_heap \<Rightarrow> nat \<times> widget_heap" where
  "alloc w h = (next_ref h, h\<lparr>store := (store h)(next_ref h := w), next_ref := Suc (next_ref h)\<rparr>)"

definition update_widget :: "nat \<Rightarrow> (widget \<Rightarrow> widget) \<Rightarrow> widget_heap \<Rightarrow> widget_heap" where
  "update_widget r f h = h\<lparr>store := (store h)(r := f (store h r))\<rparr>"

definition connect :: "callback \<Rightarrow> int \<Rightarrow> (callback \<times> int) list \<Rightarrow> (callback \<times> int) list" where
  \<comment> \<open>\<^verbatim>\<open>signal.connect(callback, priority=p)\<close>: after the callbacks of priority at least
      \<open>p\<close>, before the others\<close>
  "connect c p cbs =
     takeWhile (\<lambda>(_, q). p \<le> q) cbs @ [(c, p)] @ dropWhile (\<lambda>(_, q). p \<le> q) cbs"

definition visibility_choices :: "pyval list" where
  \<comment> \<open>the member names of \<^verbatim>\<open>EVisibility\<close> that do not start with an underscore\<close>
  "visibility_choices = [PyStr ''Beginner'', PyStr ''Expert'', PyStr ''Guru'', PyStr ''Invisible'']"

text \<open>
  Lines 98--109, the end of every iteration of the loop over \<^verbatim>\<open>specs\<close>: disable a
  read-only control, connect the callbacks of a control that is not a container, append
  the control to \<^verbatim>\<open>widgets\<close> and enter it in the mapping.
\<close>

definition is_category :: "FeatureSpec \<Rightarrow> bool" where
  "is_category spec = (case spec of CategoryFeatureSpec _ _ _ _ _ \<Rightarrow> True | _ \<Rightarrow> False)"

definition is_command :: "FeatureSpec \<Rightarrow> bool" where
  "is_command spec = (case spec of CommandFeatureSpec _ _ _ _ \<Rightarrow> True | _ \<Rightarrow> False)"

definition append_widget ::
  "FeatureSpec \<Rightarrow> nat \<Rightarrow> nat \<Rightarrow> nat \<Rightarrow> (UUID \<rightharpoonup> nat) \<Rightarrow> widget_heap
     \<Rightarrow> (UUID \<rightharpoonup> nat) \<times> widget_heap"
where
  "append_widget spec widget widgets cb_visibility mapping h =
    (let h1 = (if (\<not> is_category spec \<and> \<not> is_command spec) \<and> access_mode spec = RO
               then update_widget widget (\<lambda>w. w\<lparr>enabled := False\<rparr>) h else h);
         h2 = (if widget_class (store h1 widget) \<noteq> Container
               then update_widget widget
                      (\<lambda>w. w\<lparr>changed_callbacks :=
                               connect (on_value_changed widget (uuid spec)) 0
                                 (changed_callbacks w)\<rparr>)
                      (update_widget cb_visibility
                         (\<lambda>w. w\<lparr>changed_callbacks :=
                                  connect (check_widget_visibility widget spec) 0
                                    (changed_callbacks w)\<rparr>) h1)
               else h1);
         h3 = update_widget widgets (\<lambda>w. w\<lparr>contents := contents w @ [widget]\<rparr>) h2
     in (mapping(uuid spec \<mapsto> widget), h3))"

text \<open>
  \<^verbatim>\<open>build_widgets_from_spec(specs, cb_visibility, mapping)\<close> and its loop. The dictionary
  is handed down the recursion as one object, as in \<^verbatim>\<open>build_feature_spec\<close>.
\<close>

fun build_widgets_from_spec ::
  "FeatureSpec list \<Rightarrow> nat option \<Rightarrow> (UUID \<rightharpoonup> nat) \<Rightarrow> widget_heap
     \<Rightarrow> nat \<times> (UUID \<rightharpoonup> nat) \<times> widget_heap"
and for_spec ::
  "FeatureSpec list \<Rightarrow> nat \<Rightarrow> nat \<Rightarrow> (UUID \<rightharpoonup> nat) \<Rightarrow> widget_heap
     \<Rightarrow> (UUID \<rightharpoonup> nat) \<times> widget_heap"
where
  "build_widgets_from_spec specs cb_visibility mapping h =
    (let (widgets, h1) = alloc ((new_widget Container)\<lparr>labels := False, layout := ''vertical''\<rparr>) h;
         (cb, h2) =
           (case cb_visibility of
              None \<Rightarrow>
               (let (cb, ha) = alloc ((new_widget ComboBox)\<lparr>choices := visibility_choices\<rparr>) h1;
                    hb = update_widget widgets
                           (\<lambda>w. w\<lparr>native_parent_changed :=
                                    native_parent_changed w @ [emit_changed_of cb]\<rparr>) ha;
                    (lbl, hc) = alloc ((new_widget Label)\<lparr>w_value := PyStr ''Visibility''\<rparr>) hb;
                    (row, hd) = alloc ((new_widget Container)
                                         \<lparr>layout := ''horizontal'', contents := [lbl, cb]\<rparr>) hc
                in (cb, update_widget widgets (\<lambda>w. w\<lparr>contents := contents w @ [row]\<rparr>) hd))
            | Some cb \<Rightarrow> (cb, update_widget widgets (\<lambda>w. w\<lparr>labels := True\<rparr>) h1));
         (mapping', h3) = for_spec specs widgets cb mapping h2
     in (widgets, mapping', h3))"
| "for_spec [] widgets cb mapping h = (mapping, h)"
| "for_spec (CategoryFeatureSpec d v cs t u # rest) widgets cb mapping h =
    (let (widget, mapping1, h1) = build_widgets_from_spec cs (Some cb) mapping h;
         (category_label, h2) = alloc ((new_widget Label)\<lparr>name := d\<rparr>) h1;
         h3 = update_widget widget (\<lambda>w. w\<lparr>contents := category_label # contents w\<rparr>) h2;
         h4 = update_widget cb
                (\<lambda>w. w\<lparr>changed_callbacks :=
                         connect (check_container_visibility widget category_label) (- 1)
                           (changed_callbacks w)\<rparr>) h3;
         (mapping2, h5) =
            append_widget (CategoryFeatureSpec d v cs t u) widget widgets cb mapping1 h4
     in for_spec rest widgets cb mapping2 h5)"
| "for_spec (IntegerFeatureSpec d v a x mn mx ic t u # rest) widgets cb mapping h =
    (let (widget, h1) =
            alloc ((new_widget SpinBox)
                     \<lparr>name := d, w_value := x, w_min := mn, w_max := mx, step := ic\<rparr>) h;
         (mapping2, h2) =
            append_widget (IntegerFeatureSpec d v a x mn mx ic t u) widget widgets cb mapping h1
     in for_spec rest widgets cb mapping2 h2)"
| "for_spec (CommandFeatureSpec d v t u # rest) widgets cb mapping h =
    (let (widget, h1) = alloc ((new_widget PushButton)\<lparr>name := d\<rparr>) h;
         (mapping2, h2) =
            append_widget (CommandFeatureSpec d v t u) widget widgets cb mapping h1
     in for_spec rest widgets cb mapping2 h2)"
| "for_spec (BooleanFeatureSpec d v a x t u # rest) widgets cb mapping h =
    (let (widget, h1) =
            alloc ((new_widget ComboBox)
                     \<lparr>name := d, w_value := x, choices := [PyBool True, PyBool False]\<rparr>) h;
         (mapping2, h2) =
            append_widget (BooleanFeatureSpec d v a x t u) widget widgets cb mapping h1
     in for_spec rest widgets cb mapping2 h2)"
| "for_spec (EnumFeatureSpec d v a x its t u # rest) widgets cb mapping h =
    (let (widget, h1) =
            alloc ((new_widget ComboBox)\<lparr>name := d, w_value := x, choices := map PyStr its\<rparr>) h;
         (mapping2, h2) =
            append_widget (EnumFeatureSpec d v a x its t u) widget widgets cb mapping h1
     in for_spec rest widgets cb mapping2 h2)"
| "for_spec (StringFeatureSpec d v a x t u # rest) widgets cb mapping h =
    (let (widget, h1) = alloc ((new_widget LineEdit)\<lparr>name := d, w_value := x\<rparr>) h;
         (mapping2, h2) =
            append_widget (StringFeatureSpec d v a x t u) widget widgets cb mapping h1
     in for_spec rest widgets cb mapping2 h2)"
| "for_spec (FloatFeatureSpec d v a x t u # rest) widgets cb mapping h =
    (let (widget, h1) = alloc ((new_widget LineEdit)\<lparr>name := d, w_value := x\<rparr>) h;
         (mapping2, h2) =
            append_widget (FloatFeatureSpec d v a x t u) widget widgets cb mapping h1
     in for_spec rest widgets cb mapping2 h2)"


section \<open>\<^verbatim>\<open>_gui.py\<close>: \<^verbatim>\<open>GenicamController\<close>\<close>

text \<open>
  The controller's \<^verbatim>\<open>self.mapping\<close> is, like \<^verbatim>\<open>STATE.mapping\<close> of the unit, a
  reference to one of two dictionaries: the \<^verbatim>\<open>{}\<close> made in \<^verbatim>\<open>__init__\<close>, or the object
  made for the default value of \<^verbatim>\<open>mapping\<close> when
  \<^verbatim>\<open>def build_widgets_from_spec(specs, cb_visibility=None, mapping={})\<close> was executed.
  \<open>command_signal\<close> is what has been emitted on the window's \<^verbatim>\<open>command_signal\<close>, the
  controller's only way out.
\<close>

record gui =
  heap :: widget_heap
  widgets_default_dict :: "UUID \<rightharpoonup> nat"
  controller_initial_dict :: "UUID \<rightharpoonup> nat"
  controller_mapping :: dict_ref
  scroll_area_widget :: "nat option"
  command_signal :: "FeatureValue list"

definition self_mapping :: "gui \<Rightarrow> (UUID \<rightharpoonup> nat)" where
  "self_mapping g =
     (case controller_mapping g of
        InitialDict \<Rightarrow> controller_initial_dict g
      | DefaultDict \<Rightarrow> widgets_default_dict g)"

definition on_feature_specs :: "FeatureSpec list \<Rightarrow> gui \<Rightarrow> gui" where
  "on_feature_specs specs g =
    (let (widgets, mapping, h) =
           build_widgets_from_spec specs None (widgets_default_dict g) (heap g)
     in g\<lparr>heap := h, widgets_default_dict := mapping,
          scroll_area_widget := Some widgets, controller_mapping := DefaultDict\<rparr>)"

text \<open>
  Emitting \<^verbatim>\<open>changed\<close> with a value calls every connected callback with it, unless the
  signal is blocked. Of the callbacks, only the closure made by \<^verbatim>\<open>on_value_changed\<close>
  emits on \<^verbatim>\<open>command_signal\<close>; the visibility callbacks set \<^verbatim>\<open>visible\<close> on widgets,
  which this embedding does not follow.
\<close>

definition emit_changed :: "widget \<Rightarrow> pyval \<Rightarrow> (callback \<times> pyval) list" where
  "emit_changed w v =
     (if changed_blocked w then [] else map (\<lambda>(c, _). (c, v)) (changed_callbacks w))"

fun commands_of :: "callback \<times> pyval \<Rightarrow> FeatureValue list" where
  "commands_of (on_value_changed _ u, v) = [\<lparr>source = CONTROLLER, fv_uuid = u, fv_value = v\<rparr>]"
| "commands_of (check_widget_visibility _ _, _) = []"
| "commands_of (check_container_visibility _ _, _) = []"
| "commands_of (emit_changed_of _, _) = []"

definition assign_value :: "nat \<Rightarrow> pyval \<Rightarrow> gui \<Rightarrow> gui" where
  \<comment> \<open>\<^verbatim>\<open>widget.value = v\<close>: the widget takes the value and emits \<^verbatim>\<open>changed\<close>\<close>
  "assign_value r v g =
    (let h = update_widget r (\<lambda>w. w\<lparr>w_value := v\<rparr>) (heap g)
     in g\<lparr>heap := h,
          command_signal := command_signal g @ concat (map commands_of (emit_changed (store h r) v))\<rparr>)"

definition on_feature_value :: "FeatureValue \<Rightarrow> gui \<Rightarrow> gui" where
  "on_feature_value feature g =
    (if source feature \<noteq> CAMERA then g
     else
       (case self_mapping g (fv_uuid feature) of
          None \<Rightarrow> g
        | Some widget \<Rightarrow>
           (let was_blocked = changed_blocked (store (heap g) widget);
                g1 = g\<lparr>heap := update_widget widget (\<lambda>w. w\<lparr>changed_blocked := True\<rparr>) (heap g)\<rparr>;
                g2 = assign_value widget (fv_value feature) g1
            in if was_blocked then g2
               else g2\<lparr>heap := update_widget widget (\<lambda>w. w\<lparr>changed_blocked := False\<rparr>)
                                  (heap g2)\<rparr>)))"


text \<open>
  The identifiers of a spec tree, children included, in the order the builders meet them;
  and what it means for the loop of \<^verbatim>\<open>build_widgets_from_spec\<close> to leave alone every
  key of the dictionary that is no identifier of the tree it is given.
\<close>

fun identifiers :: "FeatureSpec \<Rightarrow> UUID list" where
  "identifiers (CategoryFeatureSpec d v cs t u) = u # concat (map identifiers cs)"
| "identifiers s = [uuid s]"

definition tree_identifiers :: "FeatureSpec list \<Rightarrow> UUID list" where
  "tree_identifiers specs = concat (map identifiers specs)"

definition keeps :: "FeatureSpec list \<Rightarrow> bool" where
  "keeps specs =
     (\<forall>widgets cb mapping h u. u \<notin> set (tree_identifiers specs)
        \<longrightarrow> fst (for_spec specs widgets cb mapping h) u = mapping u)"


section \<open>Concrete inputs\<close>

text \<open>
  Three nodes as a camera presents them: a command, an Integer whose access mode is
  Not-Available (the device timestamp), and a category without children whose visibility
  is Beginner and whose access mode is Read-Only.
\<close>

definition acquisition_start :: feature where
  "acquisition_start =
     Feature \<lparr>node_display_name = ''Acquisition Start'', node_visibility = Beginner,
              principal_interface_type = intfICommand, get_access_mode = WO\<rparr>
       PyNone 0 0 0 [] []"

definition timestamp :: feature where
  "timestamp =
     Feature \<lparr>node_display_name = ''Timestamp'', node_visibility = Beginner,
              principal_interface_type = intfIInteger, get_access_mode = NA\<rparr>
       PyNone 0 0 0 [] []"

definition device_control :: feature where
  "device_control =
     Feature \<lparr>node_display_name = ''Device Control'', node_visibility = Beginner,
              principal_interface_type = intfICategory, get_access_mode = RO\<rparr>
       PyNone 0 0 0 [] []"


text \<open>
  A camera whose root holds the one command, with nothing to write to, and the unit
  connected to it before any spec has been built. The argument is the source of
  identifiers.
\<close>

definition one_command_sdk :: "unit sdk" where
  "one_command_sdk =
     \<lparr>root_features = (\<lambda>_. [acquisition_start]), execute = (\<lambda>_ d. d),
      set_value = (\<lambda>_ _ d. (None, d)), get_value = (\<lambda>_ _. Inr PyNone),
      ia_start = (\<lambda>d. d), ia_stop = (\<lambda>d. d)\<rparr>"

definition connected_world :: "UUID stream \<Rightarrow> unit world" where
  "connected_world rng =
     \<lparr>mode_change_ev = False, ia = Some ImageAcquirer, mode = STOPPED,
      STATE_mapping = InitialDict, initial_dict = Map.empty, default_dict = Map.empty,
      uuid4 = rng, device = ()\<rparr>"

text \<open>
  A camera with one writable Integer node. The state of the camera is the value of the
  node, 3 to begin with; a write outside 0..100, or of anything but an integer, is
  rejected and leaves the value as it was. The unit knows the node under identifier 7.
\<close>

definition exposure_time :: feature where
  "exposure_time =
     Feature \<lparr>node_display_name = ''Exposure Time'', node_visibility = Beginner,
              principal_interface_type = intfIInteger, get_access_mode = RW\<rparr>
       (PyInt 3) 0 100 1 [] []"

definition one_integer_sdk :: "int sdk" where
  "one_integer_sdk =
     \<lparr>root_features = (\<lambda>_. [exposure_time]), execute = (\<lambda>_ d. d),
      set_value = (\<lambda>_ v d. case v of
                      PyInt n \<Rightarrow> if 0 \<le> n \<and> n \<le> 100 then (None, n)
                                 else (Some (Exception ''OutOfRangeException''), d)
                    | _ \<Rightarrow> (Some (Exception ''TypeError''), d)),
      get_value = (\<lambda>_ d. Inr (PyInt d)),
      ia_start = (\<lambda>d. d), ia_stop = (\<lambda>d. d)\<rparr>"

definition exposure_world :: "int world" where
  "exposure_world =
     \<lparr>mode_change_ev = False, ia = Some ImageAcquirer, mode = STOPPED,
      STATE_mapping = DefaultDict, initial_dict = Map.empty,
      default_dict = [7 \<mapsto> exposure_time],
      uuid4 = sconst 1, device = 3\<rparr>"

text \<open>
  A camera whose root holds the command and the Not-Available timestamp. It refuses both
  the write and the read of a node whose access mode is Not-Available. The second
  definition is the unit after \<^verbatim>\<open>send_ctrl\<close> has run once on this camera with the
  identifiers 1, 2 drawn: the build has entered the timestamp under identifier 2.
\<close>

definition timestamp_sdk :: "unit sdk" where
  "timestamp_sdk =
     \<lparr>root_features = (\<lambda>_. [acquisition_start, timestamp]), execute = (\<lambda>_ d. d),
      set_value = (\<lambda>f _ d. if get_access_mode (node f) = NA
                             then (Some (Exception ''AccessException''), d) else (None, d)),
      get_value = (\<lambda>f _. if get_access_mode (node f) = NA
                           then Inl (Exception ''AccessException'')
                           else Inr (feature_value f)),
      ia_start = (\<lambda>d. d), ia_stop = (\<lambda>d. d)\<rparr>"

definition timestamp_world :: "unit world" where
  "timestamp_world =
     (connected_world (sconst 3))
       \<lparr>STATE_mapping := DefaultDict,
        default_dict := [1 \<mapsto> acquisition_start, 2 \<mapsto> timestamp]\<rparr>"


text \<open>
  Pixel-format tables with a few PFNC formats in each family, a custom format being one
  whose code has the top bit of 32 set; a 16-bit monochrome buffer of one row and two
  pixels; an 8-bit BGR buffer of one row and two pixels, the first pixel with B = 10,
  G = 20, R = 30; and the same two pixels in the 8-bit BGRA format, each with alpha 255.
\<close>

definition pfnc_tables :: pfnc where
  "pfnc_tables =
     \<lparr>is_custom = (\<lambda>v. 2147483648 \<le> v),
      get_bits_per_pixel =
        (\<lambda>f. if f \<in> {Some ''Mono8'', Some ''RGB8'', Some ''BGR8'', Some ''BGRa8''} then Some 8
             else if f = Some ''BGR10'' then Some 10
             else if f = Some ''Mono16'' then Some 16
             else None),
      mono_location_formats = [''Mono8'', ''Mono16''],
      bayer_location_formats = [''BayerRG8''],
      rgb_formats = [''RGB8''],
      rgba_formats = [''RGBa8''],
      bgr_formats = [''BGR8'', ''BGR10''],
      bgra_formats = [''BGRa8'']\<rparr>"

definition mono16_buffer :: component where
  "mono16_buffer =
     \<lparr>width = 2, height = 1, data_format_value = 17825799, data_format = ''Mono16'',
      data_dtype = uint16, data = [512, 65535], num_components_per_pixel = 1\<rparr>"

definition bgr8_buffer :: component where
  "bgr8_buffer =
     \<lparr>width = 2, height = 1, data_format_value = 35127317, data_format = ''BGR8'',
      data_dtype = uint8, data = [10, 20, 30, 40, 50, 60], num_components_per_pixel = 3\<rparr>"

definition bgra8_buffer :: component where
  "bgra8_buffer =
     \<lparr>width = 2, height = 1, data_format_value = 35651607, data_format = ''BGRa8'',
      data_dtype = uint8, data = [10, 20, 30, 255, 40, 50, 60, 255],
      num_components_per_pixel = 4\<rparr>"


text \<open>
  A controller that has received nothing yet; two generations of a spec tree with one
  Integer each, under identifiers 1 and 2; and the controller after the first generation,
  as \<^verbatim>\<open>on_feature_specs\<close> leaves it: widget 0 is the outer container, 1 the visibility
  selector, 2 and 3 its label and row, 4 the spin box of the Integer.
\<close>

definition initial_gui :: gui where
  "initial_gui =
     \<lparr>heap = \<lparr>store = (\<lambda>_. new_widget Label), next_ref = 0\<rparr>,
      widgets_default_dict = Map.empty, controller_initial_dict = Map.empty,
      controller_mapping = InitialDict, scroll_area_widget = None, command_signal = []\<rparr>"

definition first_tree :: "FeatureSpec list" where
  "first_tree = [IntegerFeatureSpec ''Exposure Time'' (Visibility Beginner) RW (PyInt 3)
                   (Some 0) (Some 100) (Some 1) intfIInteger 1]"

definition second_tree :: "FeatureSpec list" where
  "second_tree = [IntegerFeatureSpec ''Exposure Time'' (Visibility Beginner) RO (PyInt 3)
                   None None None intfIInteger 2]"

definition first_generation :: gui where
  "first_generation =
     \<lparr>heap =
        \<lparr>store = (\<lambda>_. new_widget Label)
           (2 := (new_widget Label)\<lparr>w_value := PyStr ''Visibility''\<rparr>,
            3 := (new_widget Container)\<lparr>layout := ''horizontal'', contents := [2, 1]\<rparr>,
            1 := (new_widget ComboBox)
                   \<lparr>choices := visibility_choices,
                      changed_callbacks :=
                        [(check_widget_visibility 4
                            (IntegerFeatureSpec ''Exposure Time'' (Visibility Beginner) RW
                               (PyInt 3) (Some 0) (Some 100) (Some 1) intfIInteger 1), 0)]\<rparr>,
            4 := (new_widget SpinBox)
                   \<lparr>name := ''Exposure Time'', w_value := PyInt 3, w_min := Some 0,
                      w_max := Some 100, step := Some 1,
                      changed_callbacks := [(on_value_changed 4 1, 0)]\<rparr>,
            0 := (new_widget Container)
                   \<lparr>labels := False, layout := ''vertical'',
                      native_parent_changed := [emit_changed_of 1], contents := [3, 4]\<rparr>),
         next_ref = 5\<rparr>,
      widgets_default_dict = [1 \<mapsto> 4], controller_initial_dict = Map.empty,
      controller_mapping = DefaultDict, scroll_area_widget = Some 0, command_signal = []\<rparr>"


section \<open>The spec builder\<close>

lemmas build_defs =
  build_feature_spec_def leaf_branch_def append_and_map_def assign_spec_def empty_frame_def
  Let_def

text \<open>
  C10. When the first element of the feature collection is an Integer whose access mode is
  Not-Available, \<^verbatim>\<open>build_feature_spec\<close> raises \<^verbatim>\<open>UnboundLocalError\<close>, a
  \<^verbatim>\<open>NameError\<close>: the branch is \<^verbatim>\<open>pass\<close>, and line 192 then reads \<^verbatim>\<open>spec\<close>, which no
  iteration has assigned. No result is returned; the dictionary and the source of
  identifiers are untouched. This holds for every dictionary passed in, the empty one
  included.
\<close>

theorem first_integer_not_available_raises_NameError:
  assumes "principal_interface_type (node f) = intfIInteger"
    and "get_access_mode (node f) = NA"
  shows "build_feature_spec (f # rest) mapping rng
           = Some (Inl (UnboundLocalError ''spec''), mapping, rng)
         \<and> is_NameError (UnboundLocalError ''spec'')"
  using assms by (cases f) (simp add: build_defs)

theorem first_integer_not_available_witness:
  "principal_interface_type (node timestamp) = intfIInteger
   \<and> get_access_mode (node timestamp) = NA
   \<and> build_feature_spec [timestamp, acquisition_start] Map.empty (sconst 1)
       = Some (Inl (UnboundLocalError ''spec''), Map.empty, sconst 1)"
  using first_integer_not_available_raises_NameError
          [of timestamp "[acquisition_start]" Map.empty "sconst 1"]
  by (simp add: timestamp_def)

text \<open>
  C1. The claim asks that a Category spec stores the node's visibility in its
  \<^verbatim>\<open>visibility\<close> field. Line 126 passes \<^verbatim>\<open>feature.node.get_access_mode()\<close> instead:
  for a category of visibility Beginner (0) and access mode Read-Only (3) the field holds
  the access mode, which is neither the node's visibility nor equal to it as an integer.
\<close>

theorem category_spec_visibility_holds_access_mode:
  "build_feature_spec [device_control] Map.empty (1 ## sconst 2)
     = Some (Inr ([CategoryFeatureSpec ''Device Control'' (AccessMode RO) [] intfICategory 1],
                  [1 \<mapsto> device_control]),
             [1 \<mapsto> device_control], sconst 2)
   \<and> AccessMode RO \<noteq> Visibility (node_visibility (node device_control))
   \<and> int_value (AccessMode RO) \<noteq> int_value (Visibility (node_visibility (node device_control)))"
  by (simp add: build_defs device_control_def while_uuid_in_mapping.simps)

text \<open>
  C3. The claim asks that a Not-Available Integer leaves no trace in the output. After a
  command, the code's \<^verbatim>\<open>pass\<close> falls through to line 192 with \<^verbatim>\<open>spec\<close> still bound
  to the command's spec: its identifier 1 is in the dictionary, so it is replaced by 2, the
  same object is appended a second time, and the dictionary gets the entry
  \<open>2 \<mapsto> timestamp\<close>. Without the Not-Available node the output is one spec and one
  entry.
\<close>

theorem not_available_integer_is_not_skipped:
  "build_feature_spec [acquisition_start, timestamp] Map.empty (1 ## 2 ## sconst 3)
     = Some (Inr ([CommandFeatureSpec ''Acquisition Start'' (Visibility Beginner) intfICommand 2,
                   CommandFeatureSpec ''Acquisition Start'' (Visibility Beginner) intfICommand 2],
                  [1 \<mapsto> acquisition_start, 2 \<mapsto> timestamp]),
             [1 \<mapsto> acquisition_start, 2 \<mapsto> timestamp], sconst 3)
   \<and> build_feature_spec [acquisition_start] Map.empty (1 ## 2 ## sconst 3)
     = Some (Inr ([CommandFeatureSpec ''Acquisition Start'' (Visibility Beginner) intfICommand 1],
                  [1 \<mapsto> acquisition_start]),
             [1 \<mapsto> acquisition_start], 2 ## sconst 3)"
  by (simp add: build_defs acquisition_start_def timestamp_def while_uuid_in_mapping.simps)

text \<open>
  C8. The claim asks that each of two consecutive builds of the same camera state returns
  a tree without a repeated identifier. For a camera whose root holds a command followed
  by a Not-Available Integer, the first build returns the command's spec twice, under
  identifier 2; the second build, run on the dictionary the first one left and on the
  next draws, returns it twice under identifier 4. The precautionary loop does what the
  claim says of it (1 is replaced by 2, and 3 by 4, because they are in the dictionary);
  the repetition comes from the fall-through of the Not-Available branch.
\<close>

theorem consecutive_builds_repeat_an_identifier:
  "build_feature_spec [acquisition_start, timestamp] Map.empty (1 ## 2 ## 3 ## 4 ## sconst 5)
     = Some (Inr ([CommandFeatureSpec ''Acquisition Start'' (Visibility Beginner) intfICommand 2,
                   CommandFeatureSpec ''Acquisition Start'' (Visibility Beginner) intfICommand 2],
                  [1 \<mapsto> acquisition_start, 2 \<mapsto> timestamp]),
             [1 \<mapsto> acquisition_start, 2 \<mapsto> timestamp], 3 ## 4 ## sconst 5)
   \<and> build_feature_spec [acquisition_start, timestamp]
        [1 \<mapsto> acquisition_start, 2 \<mapsto> timestamp] (3 ## 4 ## sconst 5)
     = Some (Inr ([CommandFeatureSpec ''Acquisition Start'' (Visibility Beginner) intfICommand 4,
                   CommandFeatureSpec ''Acquisition Start'' (Visibility Beginner) intfICommand 4],
                  [1 \<mapsto> acquisition_start, 2 \<mapsto> timestamp,
                   3 \<mapsto> acquisition_start, 4 \<mapsto> timestamp]),
             [1 \<mapsto> acquisition_start, 2 \<mapsto> timestamp,
              3 \<mapsto> acquisition_start, 4 \<mapsto> timestamp], sconst 5)
   \<and> \<not> distinct (map uuid
          [CommandFeatureSpec ''Acquisition Start'' (Visibility Beginner) intfICommand 2,
           CommandFeatureSpec ''Acquisition Start'' (Visibility Beginner) intfICommand 2])
   \<and> \<not> distinct (map uuid
          [CommandFeatureSpec ''Acquisition Start'' (Visibility Beginner) intfICommand 4,
           CommandFeatureSpec ''Acquisition Start'' (Visibility Beginner) intfICommand 4])"
  by (simp add: build_defs acquisition_start_def timestamp_def while_uuid_in_mapping.simps)


section \<open>The unit\<close>

text \<open>
  C4. The claim asks that the mapping a build returns holds the identifiers of that build
  only. \<^verbatim>\<open>send_ctrl\<close> passes no \<^verbatim>\<open>mapping\<close>, so both of two consecutive runs work on
  the one default dictionary: the first publishes a spec under identifier 1, the second
  a spec under identifier 2, and the mapping the second run stores in \<^verbatim>\<open>STATE.mapping\<close>
  still resolves identifier 1, which is no identifier of the tree it has just published.
\<close>

theorem send_ctrl_twice_keeps_earlier_entries:
  "send_ctrl one_command_sdk (connected_world (1 ## 2 ## sconst 3))
     = Some (None,
             [FeatureSpecs
                [CommandFeatureSpec ''Acquisition Start'' (Visibility Beginner) intfICommand 1]],
             (connected_world (2 ## sconst 3))
               \<lparr>STATE_mapping := DefaultDict, default_dict := [1 \<mapsto> acquisition_start]\<rparr>)
   \<and> send_ctrl one_command_sdk
        ((connected_world (2 ## sconst 3))
               \<lparr>STATE_mapping := DefaultDict, default_dict := [1 \<mapsto> acquisition_start]\<rparr>)
     = Some (None,
             [FeatureSpecs
                [CommandFeatureSpec ''Acquisition Start'' (Visibility Beginner) intfICommand 2]],
             (connected_world (sconst 3))
               \<lparr>STATE_mapping := DefaultDict,
                default_dict := [1 \<mapsto> acquisition_start, 2 \<mapsto> acquisition_start]\<rparr>)
   \<and> deref ((connected_world (sconst 3))
               \<lparr>STATE_mapping := DefaultDict,
                default_dict := [1 \<mapsto> acquisition_start, 2 \<mapsto> acquisition_start]\<rparr>)
        DefaultDict 1
       = Some acquisition_start
   \<and> 1 \<notin> set (map uuid
          [CommandFeatureSpec ''Acquisition Start'' (Visibility Beginner) intfICommand 2])"
  by (simp add: send_ctrl_def rebuild_def one_command_sdk_def connected_world_def deref_def
        build_defs acquisition_start_def while_uuid_in_mapping.simps)

text \<open>
  C2, as it is stated, fails: the claim has \<^verbatim>\<open>on_ctrl\<close> either write the value or
  emit one corrective message, never neither. On the camera with the Not-Available
  timestamp, \<^verbatim>\<open>send_ctrl\<close> leaves the timestamp in the mapping under identifier 2, an
  Integer node. A Controller-origin message for identifier 2 makes the write raise; the
  read of the node's value in the \<^verbatim>\<open>except\<close> clause raises too, and the handler ends
  with that exception: nothing was written and nothing is yielded.
\<close>

theorem on_ctrl_neither_write_nor_corrective:
  "send_ctrl timestamp_sdk (connected_world (1 ## 2 ## sconst 3))
     = Some (None,
             [FeatureSpecs
                [CommandFeatureSpec ''Acquisition Start'' (Visibility Beginner) intfICommand 2,
                 CommandFeatureSpec ''Acquisition Start'' (Visibility Beginner) intfICommand 2]],
             timestamp_world)
   \<and> source \<lparr>source = CONTROLLER, fv_uuid = 2, fv_value = PyInt 5\<rparr> = CONTROLLER
   \<and> deref timestamp_world (STATE_mapping timestamp_world) 2 = Some timestamp
   \<and> principal_interface_type (node timestamp) = intfIInteger
   \<and> set_value timestamp_sdk timestamp (PyInt 5) (device timestamp_world)
       = (Some (Exception ''AccessException''), device timestamp_world)
   \<and> on_ctrl timestamp_sdk \<lparr>source = CONTROLLER, fv_uuid = 2, fv_value = PyInt 5\<rparr>
         timestamp_world
       = Some (Some (Exception ''AccessException''), [], timestamp_world)"
  by (simp add: send_ctrl_def rebuild_def on_ctrl_def isinstance_def timestamp_sdk_def
        timestamp_world_def connected_world_def deref_def build_defs acquisition_start_def
        timestamp_def while_uuid_in_mapping.simps)

text \<open>
  C2, amended. A Controller-origin message whose identifier the mapping resolves to an
  Integer, Float, Boolean, Enumeration or String node makes \<^verbatim>\<open>on_ctrl\<close> attempt the
  write, and the camera is left as the attempt left it. If the write raised nothing, the
  handler returns and nothing is yielded. If the write raised and the node's value can
  then be read, the handler returns and exactly one message is yielded, a
  \<^verbatim>\<open>FeatureValue\<close> of origin Camera for the same identifier carrying the value read.
  Nothing is stated for the run in which the read raises as well.
\<close>

theorem on_ctrl_write_or_one_corrective:
  assumes "source message = CONTROLLER"
    and "deref w (STATE_mapping w) (fv_uuid message) = Some feature"
    and "principal_interface_type (node feature)
           \<in> {intfIInteger, intfIFloat, intfIBoolean, intfIEnumeration, intfIString}"
  shows "case set_value sdk feature (fv_value message) (device w) of
           (None, dev') \<Rightarrow> on_ctrl sdk message w = Some (None, [], w\<lparr>device := dev'\<rparr>)
         | (Some e, dev') \<Rightarrow>
             (\<forall>v. get_value sdk feature dev' = Inr v \<longrightarrow>
                  on_ctrl sdk message w
                    = Some (None,
                            [FeatureValueMsg
                               \<lparr>source = CAMERA, fv_uuid = fv_uuid message, fv_value = v\<rparr>],
                            w\<lparr>device := dev'\<rparr>))"
proof (cases "set_value sdk feature (fv_value message) (device w)")
  case (Pair r dev')
  from assms(3) have kind:
    "\<not> isinstance feature intfICategory" "\<not> isinstance feature intfICommand"
    "isinstance feature intfIInteger \<or> isinstance feature intfIFloat
       \<or> isinstance feature intfIBoolean \<or> isinstance feature intfIEnumeration
       \<or> isinstance feature intfIString"
    by (auto simp: isinstance_def)
  show ?thesis
  proof (cases r)
    case None
    with assms(1,2) kind Pair show ?thesis by (simp add: on_ctrl_def)
  next
    case (Some e)
    with assms(1,2) kind Pair show ?thesis by (simp add: on_ctrl_def)
  qed
qed

theorem on_ctrl_write_or_one_corrective_witness:
  "source \<lparr>source = CONTROLLER, fv_uuid = 7, fv_value = PyInt 500\<rparr> = CONTROLLER
   \<and> deref exposure_world (STATE_mapping exposure_world) 7 = Some exposure_time
   \<and> principal_interface_type (node exposure_time) = intfIInteger
   \<and> on_ctrl one_integer_sdk \<lparr>source = CONTROLLER, fv_uuid = 7, fv_value = PyInt 500\<rparr>
         exposure_world
       = Some (None,
               [FeatureValueMsg \<lparr>source = CAMERA, fv_uuid = 7, fv_value = PyInt 3\<rparr>],
               exposure_world)
   \<and> on_ctrl one_integer_sdk \<lparr>source = CONTROLLER, fv_uuid = 7, fv_value = PyInt 50\<rparr>
         exposure_world
       = Some (None, [], exposure_world\<lparr>device := 50\<rparr>)"
  using on_ctrl_write_or_one_corrective
          [of "\<lparr>source = CONTROLLER, fv_uuid = 7, fv_value = PyInt 500\<rparr>"
              exposure_world exposure_time one_integer_sdk]
        on_ctrl_write_or_one_corrective
          [of "\<lparr>source = CONTROLLER, fv_uuid = 7, fv_value = PyInt 50\<rparr>"
              exposure_world exposure_time one_integer_sdk]
  by (simp add: exposure_world_def deref_def exposure_time_def one_integer_sdk_def)


section \<open>The frame decoder\<close>

text \<open>
  C5. The claim asks that a 16-bit monochrome buffer is emitted as an 8-bit array of
  \<open>raw div 256\<close>. The conversion of lines 216--223 is indented under the \<^verbatim>\<open>else\<close> of
  line 195, so the monochrome branch never reaches it: the buffer with samples 512 and
  65535 is emitted as it came, a 16-bit array holding 512 and 65535, where the claim has
  an 8-bit array holding 2 and 255. The format is known to have 16 bits, so the exponent
  the code computed is 8; it is not used.
\<close>

theorem mono16_frame_is_not_scaled:
  "on_image_iteration pfnc_tables (\<lambda>q. q mod 256) STARTED (Some ImageAcquirer)
       (Buffer (Some [mono16_buffer]))
     = Inr [\<lparr>axis_data = Array2 uint16 [[512, 65535]], dims = [''rows'', ''cols'']\<rparr>]
   \<and> exponent_of pfnc_tables (Some (data_format mono16_buffer)) = 8
   \<and> Array2 uint16 [[512, 65535]] \<noteq> Array2 uint8 [[512 div 256, 65535 div 256]]"
  by (simp add: on_image_iteration_def decode_def pfnc_tables_def mono16_buffer_def
        in_formats_def reshape2_def exponent_of_def Let_def upt_rec)

lemma pixel_bound:
  assumes "r < h" and "c < (w::nat)"
  shows "(r * w + c) * n + n \<le> h * w * n"
proof -
  have "r * w + c + 1 \<le> r * w + w" using assms by simp
  also have "\<dots> = (r + 1) * w" by simp
  also have "\<dots> \<le> h * w" using assms by (intro mult_le_mono1) simp
  finally have "(r * w + c + 1) * n \<le> h * w * n" by (rule mult_le_mono1)
  then show ?thesis by (simp add: algebra_simps)
qed

lemma reshape3_shape:
  assumes "length xs = h * w * n"
  shows "\<exists>content. reshape3 xs h w n = Inr content \<and> length content = h
     \<and> (\<forall>r<h. length (content ! r) = w
          \<and> (\<forall>c<w. length (content ! r ! c) = n
               \<and> (\<forall>k<n. content ! r ! c ! k = xs ! ((r * w + c) * n + k))))"
proof -
  have "length (take n (drop ((r * w + c) * n) xs)) = n" if "r < h" "c < w" for r c
    using pixel_bound[OF that, of n] assms by simp
  moreover have "take n (drop ((r * w + c) * n) xs) ! k = xs ! ((r * w + c) * n + k)"
    if "r < h" "c < w" "k < n" for r c k
  proof -
    have "(r * w + c) * n \<le> length xs"
      using pixel_bound[OF that(1,2), of n] assms by linarith
    then show ?thesis using that(3) by (simp add: nth_drop)
  qed
  ultimately show ?thesis using assms by (simp add: reshape3_def)
qed

text \<open>
  C9, as it is stated, fails: the claim is about every buffer in a BGR-ordered format. The
  BGRA formats are BGR-ordered and are accepted by line 202, but line 209 reverses the
  channel axis only for the formats of \<^verbatim>\<open>bgr_formats\<close>: the BGRa8 buffer is decoded
  with its samples where they were, B first, and not to the RGB-ordered frame.
\<close>

theorem bgra_frame_is_not_reordered:
  "\<not> is_custom pfnc_tables (data_format_value bgra8_buffer)
   \<and> data_format bgra8_buffer \<in> set (bgra_formats pfnc_tables)
   \<and> data bgra8_buffer = [10, 20, 30, 255, 40, 50, 60, 255]
   \<and> decode pfnc_tables (\<lambda>q. q mod 256) bgra8_buffer
       = Inr (Array3 uint8 [[[10, 20, 30, 255], [40, 50, 60, 255]]])
   \<and> decode pfnc_tables (\<lambda>q. q mod 256) bgra8_buffer
       \<noteq> Inr (Array3 uint8 [[[30, 20, 10, 255], [60, 50, 40, 255]]])"
  by (simp add: pfnc_tables_def bgra8_buffer_def decode_def in_formats_def reshape3_def
        reverse_channels_def exponent_of_def Let_def upt_rec)

text \<open>
  C9, amended to the formats of \<^verbatim>\<open>bgr_formats\<close>. A buffer whose format is in
  \<^verbatim>\<open>bgr_formats\<close> (and so is not custom, and is in neither of the two tables tried
  first) and whose data has the size its shape asks for is decoded to a three-dimensional
  array of \<open>height\<close> rows, \<open>width\<close> pixels a row and \<open>num_components_per_pixel\<close>
  channels a pixel, in which channel \<open>k\<close> of a pixel is the raw sample of channel
  \<open>n - 1 - k\<close> of that pixel: with three channels, positions 0 and 2 (B and R) are
  exchanged and position 1 (G) stays. When the format has more than 8 bits the sample
  moved is also scaled down by lines 216--223; otherwise it is the raw sample.
\<close>

theorem bgr_frame_has_channels_reversed:
  assumes "\<not> is_custom pf (data_format_value c)"
    and "data_format c \<in> set (bgr_formats pf)"
    and "data_format c \<notin> set (mono_location_formats pf)"
    and "data_format c \<notin> set (bayer_location_formats pf)"
    and "length (data c) = height c * width c * num_components_per_pixel c"
  shows "\<exists>dt content. decode pf overflow c = Inr (Array3 dt content)
     \<and> length content = height c
     \<and> (\<forall>r<height c. length (content ! r) = width c
          \<and> (\<forall>col<width c. length (content ! r ! col) = num_components_per_pixel c
               \<and> (\<forall>k<num_components_per_pixel c.
                     content ! r ! col ! k =
                       (let raw = data c ! ((r * width c + col) * num_components_per_pixel c
                                              + (num_components_per_pixel c - 1 - k));
                            exponent = exponent_of pf (Some (data_format c))
                        in if exponent > 0 then to_8bit overflow exponent raw else raw))))"
proof -
  obtain content0
    where c0: "reshape3 (data c) (height c) (width c) (num_components_per_pixel c) = Inr content0"
    and len: "length content0 = height c"
    and rows: "\<And>r. r < height c \<Longrightarrow> length (content0 ! r) = width c"
    and pix: "\<And>r col. r < height c \<Longrightarrow> col < width c
                \<Longrightarrow> length (content0 ! r ! col) = num_components_per_pixel c"
    and smp: "\<And>r col k. r < height c \<Longrightarrow> col < width c \<Longrightarrow> k < num_components_per_pixel c
                \<Longrightarrow> content0 ! r ! col ! k
                     = data c ! ((r * width c + col) * num_components_per_pixel c + k)"
    using reshape3_shape[OF assms(5)] by blast
  have rv: "reverse_channels content0 ! r ! col ! k
              = data c ! ((r * width c + col) * num_components_per_pixel c
                            + (num_components_per_pixel c - 1 - k))"
    if "r < height c" "col < width c" "k < num_components_per_pixel c" for r col k
    using that len rows pix smp[of r col "num_components_per_pixel c - 1 - k"]
    by (simp add: reverse_channels_def rev_nth)
  show ?thesis
    using assms(1-4) c0 len rows pix rv
    by (simp add: decode_def in_formats_def Let_def reverse_channels_def)
qed

theorem bgr_frame_has_channels_reversed_witness:
  "\<not> is_custom pfnc_tables (data_format_value bgr8_buffer)
   \<and> data_format bgr8_buffer \<in> set (bgr_formats pfnc_tables)
   \<and> data_format bgr8_buffer \<notin> set (mono_location_formats pfnc_tables)
   \<and> data_format bgr8_buffer \<notin> set (bayer_location_formats pfnc_tables)
   \<and> length (data bgr8_buffer)
       = height bgr8_buffer * width bgr8_buffer * num_components_per_pixel bgr8_buffer
   \<and> decode pfnc_tables (\<lambda>q. q mod 256) bgr8_buffer
       = Inr (Array3 uint8 [[[30, 20, 10], [60, 50, 40]]])"
  using bgr_frame_has_channels_reversed [of pfnc_tables bgr8_buffer "\<lambda>q. q mod 256"]
  by (simp add: pfnc_tables_def bgr8_buffer_def decode_def in_formats_def reshape3_def
        reverse_channels_def exponent_of_def Let_def upt_rec)


section \<open>The controller\<close>

text \<open>
  The dictionary a run of the widget builder returns differs from the one it was given
  only at the identifiers of the tree: every other key keeps its entry. The proof follows
  the dictionary through the loop, one spec at a time, and through the recursion into the
  children of a category.
\<close>

lemma append_widget_mapping:
  "fst (append_widget spec widget widgets cb mapping h) = mapping(uuid spec \<mapsto> widget)"
  by (simp add: append_widget_def Let_def)

lemma build_widgets_mapping:
  "\<exists>widgets cb h'. fst (snd (build_widgets_from_spec specs cb_visibility mapping h))
      = fst (for_spec specs widgets cb mapping h')"
  by (auto simp: Let_def split: prod.splits option.splits)

lemma for_spec_category_mapping:
  "\<exists>widget h'. fst (for_spec (CategoryFeatureSpec d v cs t u # rest) widgets cb mapping h)
      = fst (for_spec rest widgets cb
               ((fst (snd (build_widgets_from_spec cs (Some cb) mapping h)))(u \<mapsto> widget)) h')"
proof -
  obtain widget mapping1 h1
    where b: "build_widgets_from_spec cs (Some cb) mapping h = (widget, mapping1, h1)"
    by (cases "build_widgets_from_spec cs (Some cb) mapping h") auto
  show ?thesis
    unfolding for_spec.simps b
    by (auto simp: Let_def append_widget_def split: prod.splits)
qed

lemma for_spec_leaf_mapping:
  assumes "\<not> is_category spec"
  shows "\<exists>widget h'. fst (for_spec (spec # rest) widgets cb mapping h)
      = fst (for_spec rest widgets cb (mapping(uuid spec \<mapsto> widget)) h')"
  using assms
  by (cases spec) (auto simp: Let_def append_widget_def is_category_def split: prod.splits)

lemma keeps_Nil: "keeps []"
  by (simp add: keeps_def)

lemma keeps_leaf:
  assumes "\<not> is_category spec" and "keeps rest"
  shows "keeps (spec # rest)"
  unfolding keeps_def
proof (intro allI impI)
  fix widgets cb mapping h u
  assume u: "u \<notin> set (tree_identifiers (spec # rest))"
  from for_spec_leaf_mapping[OF assms(1), of rest widgets cb mapping h]
  obtain widget h' where e: "fst (for_spec (spec # rest) widgets cb mapping h)
      = fst (for_spec rest widgets cb (mapping(uuid spec \<mapsto> widget)) h')" by blast
  from u assms(1) have "u \<noteq> uuid spec" "u \<notin> set (tree_identifiers rest)"
    by (cases spec; simp add: tree_identifiers_def is_category_def)+
  with assms(2) e show "fst (for_spec (spec # rest) widgets cb mapping h) u = mapping u"
    by (simp add: keeps_def)
qed

lemma keeps_category:
  assumes "keeps cs" and "keeps rest"
  shows "keeps (CategoryFeatureSpec d v cs t u' # rest)"
  unfolding keeps_def
proof (intro allI impI)
  fix widgets cb mapping h u
  assume u: "u \<notin> set (tree_identifiers (CategoryFeatureSpec d v cs t u' # rest))"
  then have ne: "u \<noteq> u'" and ucs: "u \<notin> set (tree_identifiers cs)"
    and urest: "u \<notin> set (tree_identifiers rest)"
    by (simp_all add: tree_identifiers_def)
  obtain widget h'
    where e: "fst (for_spec (CategoryFeatureSpec d v cs t u' # rest) widgets cb mapping h)
      = fst (for_spec rest widgets cb
               ((fst (snd (build_widgets_from_spec cs (Some cb) mapping h)))(u' \<mapsto> widget)) h')"
    using for_spec_category_mapping by blast
  obtain widgets1 cb1 h1
    where b: "fst (snd (build_widgets_from_spec cs (Some cb) mapping h))
      = fst (for_spec cs widgets1 cb1 mapping h1)"
    using build_widgets_mapping by blast
  have "fst (for_spec cs widgets1 cb1 mapping h1) u = mapping u"
    using assms(1) ucs by (simp add: keeps_def)
  with e b ne urest assms(2)
  show "fst (for_spec (CategoryFeatureSpec d v cs t u' # rest) widgets cb mapping h) u = mapping u"
    by (simp add: keeps_def)
qed

lemma keeps_step: "keeps rest \<Longrightarrow> keeps (spec # rest)"
proof (induction spec arbitrary: rest)
  case (CategoryFeatureSpec d v cs t u)
  have "keeps cs"
    using CategoryFeatureSpec.IH
  proof (induction cs)
    case Nil
    show ?case by (rule keeps_Nil)
  next
    case (Cons c cs)
    then show ?case by simp
  qed
  then show ?case using CategoryFeatureSpec.prems by (rule keeps_category)
qed (auto intro: keeps_leaf simp: is_category_def)

lemma keeps_all: "keeps specs"
  by (induction specs) (auto intro: keeps_Nil keeps_step)

lemma on_feature_specs_keeps_other_entries:
  assumes "u \<notin> set (tree_identifiers specs)"
  shows "self_mapping (on_feature_specs specs g) u = widgets_default_dict g u"
proof -
  obtain widgets cb h'
    where "fst (snd (build_widgets_from_spec specs None (widgets_default_dict g) (heap g)))
      = fst (for_spec specs widgets cb (widgets_default_dict g) h')"
    using build_widgets_mapping by blast
  moreover have "fst (for_spec specs widgets cb (widgets_default_dict g) h') u
      = widgets_default_dict g u"
    using keeps_all assms by (simp add: keeps_def)
  ultimately show ?thesis
    by (cases "build_widgets_from_spec specs None (widgets_default_dict g) (heap g)")
       (simp add: on_feature_specs_def self_mapping_def del: build_widgets_from_spec.simps)
qed

lemma new_widget_sel:
  "widget_class (new_widget c) = c" "changed_callbacks (new_widget c) = []"
  "changed_blocked (new_widget c) = False" "contents (new_widget c) = []"
  "native_parent_changed (new_widget c) = []"
  by (simp_all add: new_widget_def)

lemma first_generation_built:
  "on_feature_specs first_tree initial_gui = first_generation"
  unfolding first_generation_def
  by (simp add: on_feature_specs_def initial_gui_def first_tree_def alloc_def update_widget_def
        append_widget_def new_widget_sel connect_def is_category_def is_command_def Let_def
        eval_nat_numeral
      cong: let_weak_cong old.prod.case_cong_weak)

text \<open>
  C6. The claim asks that after \<^verbatim>\<open>on_feature_specs\<close> the stored mapping holds the
  identifiers of the new tree only. \<^verbatim>\<open>build_widgets_from_spec(specs)\<close> is called
  without \<^verbatim>\<open>mapping\<close>, so every generation is entered into the one default dictionary,
  and \<^verbatim>\<open>self.mapping\<close> is that dictionary: after a first tree with identifier 1 and a
  second tree whose only identifier is 2, identifier 1 still resolves, to the spin box
  (widget 4) of the first generation.
\<close>

theorem second_tree_leaves_stale_identifier:
  "self_mapping (on_feature_specs first_tree initial_gui) 1 = Some 4
   \<and> self_mapping (on_feature_specs second_tree (on_feature_specs first_tree initial_gui)) 1
       = Some 4
   \<and> 1 \<notin> set (tree_identifiers second_tree)"
proof -
  have "1 \<notin> set (tree_identifiers second_tree)"
    by (simp add: tree_identifiers_def second_tree_def)
  then show ?thesis
    by (simp add: first_generation_built on_feature_specs_keeps_other_entries)
       (simp add: first_generation_def self_mapping_def)
qed

text \<open>
  C7. \<^verbatim>\<open>on_feature_value\<close> leaves the controller as it is when the message's origin is
  not Camera, and when its identifier is not in the mapping. In every case nothing is
  emitted on \<^verbatim>\<open>command_signal\<close>: the widget's \<^verbatim>\<open>changed\<close> is blocked while the value
  is assigned, so the closure of \<^verbatim>\<open>on_value_changed\<close> is not called and no
  Controller-origin \<^verbatim>\<open>FeatureValue\<close> leaves the controller. For a Camera-origin message
  with a known identifier the widget ends up showing the message's value.
\<close>

theorem camera_update_is_not_echoed:
  "(source feature \<noteq> CAMERA \<longrightarrow> on_feature_value feature g = g)
   \<and> (self_mapping g (fv_uuid feature) = None \<longrightarrow> on_feature_value feature g = g)
   \<and> command_signal (on_feature_value feature g) = command_signal g
   \<and> (\<forall>widget. source feature = CAMERA \<and> self_mapping g (fv_uuid feature) = Some widget
         \<longrightarrow> w_value (store (heap (on_feature_value feature g)) widget) = fv_value feature)"
  by (auto simp: on_feature_value_def assign_value_def emit_changed_def update_widget_def Let_def
           split: option.splits)

text \<open>
  The witness applies a Camera-origin value 42 for identifier 1 to the controller of the
  first generation: nothing is emitted and the spin box shows 42, whereas the same
  assignment with the signal not blocked (a change made by the user) emits the
  Controller-origin message. A Controller-origin message, and a Camera-origin message for
  the unknown identifier 9, change nothing.
\<close>

theorem camera_update_is_not_echoed_witness:
  "source \<lparr>source = CAMERA, fv_uuid = 1, fv_value = PyInt 42\<rparr> = CAMERA
   \<and> self_mapping (on_feature_specs first_tree initial_gui) 1 = Some 4
   \<and> command_signal (on_feature_value \<lparr>source = CAMERA, fv_uuid = 1, fv_value = PyInt 42\<rparr>
         (on_feature_specs first_tree initial_gui)) = []
   \<and> w_value (store (heap (on_feature_value
         \<lparr>source = CAMERA, fv_uuid = 1, fv_value = PyInt 42\<rparr>
         (on_feature_specs first_tree initial_gui))) 4) = PyInt 42
   \<and> command_signal (assign_value 4 (PyInt 42) (on_feature_specs first_tree initial_gui))
        = [\<lparr>source = CONTROLLER, fv_uuid = 1, fv_value = PyInt 42\<rparr>]
   \<and> source \<lparr>source = CONTROLLER, fv_uuid = 1, fv_value = PyInt 42\<rparr> \<noteq> CAMERA
   \<and> on_feature_value \<lparr>source = CONTROLLER, fv_uuid = 1, fv_value = PyInt 42\<rparr>
         (on_feature_specs first_tree initial_gui) = on_feature_specs first_tree initial_gui
   \<and> self_mapping (on_feature_specs first_tree initial_gui) 9 = None
   \<and> on_feature_value \<lparr>source = CAMERA, fv_uuid = 9, fv_value = PyInt 42\<rparr>
         (on_feature_specs first_tree initial_gui) = on_feature_specs first_tree initial_gui"
  using camera_update_is_not_echoed
          [of "\<lparr>source = CAMERA, fv_uuid = 1, fv_value = PyInt 42\<rparr>"
              "on_feature_specs first_tree initial_gui"]
        camera_update_is_not_echoed
          [of "\<lparr>source = CONTROLLER, fv_uuid = 1, fv_value = PyInt 42\<rparr>"
              "on_feature_specs first_tree initial_gui"]
        camera_update_is_not_echoed
          [of "\<lparr>source = CAMERA, fv_uuid = 9, fv_value = PyInt 42\<rparr>"
              "on_feature_specs first_tree initial_gui"]
  unfolding first_generation_built
  by (simp add: first_generation_def self_mapping_def assign_value_def emit_changed_def
        update_widget_def new_widget_sel)

end
